theory Spec2Isabelle
  imports Complex_Main "HOL-Library.AList"
begin

section \<open>Felafax service: data model\<close>

text \<open>
  The embedding follows \<^verbatim>\<open>felafax-service/main.py\<close>.  Python floats are
  idealised as exact rationals (no rounding, no overflow); a character is a code point
  below 256.  The store is taken to be reachable and to hold well-formed records, so
  the only exceptions of a handler are those its own computation raises.
\<close>

datatype HardwareType = TPU | TRAINIUM | GPU | AMD

datatype ModelPrecision = BFLOAT16 | FLOAT32

text \<open>The values a \<^verbatim>\<open>Dict[str, Any]\<close> read from JSON can hold at a key.\<close>

datatype pyval =
  PNone | PBool bool | PInt int | PFloat rat | PStr string
  | PList "pyval list" | PDict "(string \<times> pyval) list"

text \<open>The exceptions the handlers can meet, and the HTTP error they are wrapped in.\<close>

datatype pyexn = ZeroDivisionError | TypeError | OverflowError | ValueError

text \<open>\<^verbatim>\<open>HTTPException(status_code, detail)\<close>\<close>

datatype detail = JobNotFound | Raised pyexn

datatype http_error = HTTPException nat detail

record FineTuningRequest =
  r_model :: string
  r_dataset :: string
  r_config :: "string \<rightharpoonup> pyval"
  r_hardware :: HardwareType
  r_precision :: ModelPrecision
  r_user_id :: "string option"

record TrainingJob =
  job_id :: string
  model :: string
  dataset :: string
  status :: string
  progress :: rat
  hardware :: HardwareType
  precision :: ModelPrecision
  created_at :: nat
  updated_at :: nat
  config :: "string \<rightharpoonup> pyval"
  logs :: "string list"
  metrics :: "string \<rightharpoonup> pyval"

record CostEstimate =
  estimated_cost :: rat
  currency :: string
  duration_hours :: rat
  hardware_type :: HardwareType
  cost_per_hour :: rat

section \<open>Python primitives used by the handlers\<close>

text \<open>\<^verbatim>\<open>d.get(k, default)\<close>\<close>

definition dict_get :: "(string \<rightharpoonup> pyval) \<Rightarrow> string \<Rightarrow> pyval \<Rightarrow> pyval" where
  "dict_get d k dflt = (case d k of None \<Rightarrow> dflt | Some v \<Rightarrow> v)"

text \<open>
  A magnitude that rounds (to nearest, ties to even) to \<open>2 ^ 1024\<close> or more has no
  finite double: converting an \<^verbatim>\<open>int\<close> of that size to \<^verbatim>\<open>float\<close>, and the true
  division of two \<^verbatim>\<open>int\<close>s with a quotient of that size, raise
  \<^verbatim>\<open>OverflowError\<close>.
\<close>

definition float_overflow :: "rat \<Rightarrow> bool" where
  "float_overflow x = (2 ^ 1024 - 2 ^ 970 \<le> \<bar>x\<bar>)"

text \<open>
  True division \<^verbatim>\<open>a / b\<close> of an \<^verbatim>\<open>int\<close> by a value of unknown type.  By an
  \<^verbatim>\<open>int\<close> (\<^verbatim>\<open>bool\<close> is a subclass of \<^verbatim>\<open>int\<close>): a zero divisor raises
  \<^verbatim>\<open>ZeroDivisionError\<close>, a quotient outside the range of a float raises
  \<^verbatim>\<open>OverflowError\<close>.  By a \<^verbatim>\<open>float\<close>: the dividend is converted first, which
  raises \<^verbatim>\<open>OverflowError\<close> when it is outside the range, then a zero divisor raises
  \<^verbatim>\<open>ZeroDivisionError\<close>; the division of floats itself does not raise.  By a
  non-number: \<^verbatim>\<open>TypeError\<close>.
\<close>

fun truediv :: "int \<Rightarrow> pyval \<Rightarrow> pyexn + rat" where
  "truediv a (PInt n) =
     (if n = 0 then Inl ZeroDivisionError
      else if float_overflow (of_int a / of_int n) then Inl OverflowError
      else Inr (of_int a / of_int n))"
| "truediv a (PBool b) =
     (if \<not> b then Inl ZeroDivisionError
      else if float_overflow (of_int a) then Inl OverflowError
      else Inr (of_int a))"
| "truediv a (PFloat r) =
     (if float_overflow (of_int a) then Inl OverflowError
      else if r = 0 then Inl ZeroDivisionError
      else Inr (of_int a / r))"
| "truediv a (PStr s) = Inl TypeError"
| "truediv a PNone = Inl TypeError"
| "truediv a (PList vs) = Inl TypeError"
| "truediv a (PDict kvs) = Inl TypeError"

text \<open>The number a value denotes in arithmetic, if it is one.\<close>

fun num_of :: "pyval \<Rightarrow> rat option" where
  "num_of (PInt n) = Some (of_int n)"
| "num_of (PFloat r) = Some r"
| "num_of (PBool b) = Some (if b then 1 else 0)"
| "num_of (PStr s) = None"
| "num_of PNone = None"
| "num_of (PList vs) = None"
| "num_of (PDict kvs) = None"

subsection \<open>Strings\<close>

definition ord :: "char \<Rightarrow> nat" where
  "ord c = of_char c"

text \<open>\<^verbatim>\<open>str.isspace\<close> and the regular expression class \<^verbatim>\<open>\s\<close> on code points below 256.\<close>

definition is_space :: "char \<Rightarrow> bool" where
  "is_space c = ((9 \<le> ord c \<and> ord c \<le> 13) \<or> (28 \<le> ord c \<and> ord c \<le> 32)
                 \<or> ord c = 133 \<or> ord c = 160)"

text \<open>The class \<^verbatim>\<open>\d\<close> on code points below 256.\<close>

definition is_digit :: "char \<Rightarrow> bool" where
  "is_digit c = (48 \<le> ord c \<and> ord c \<le> 57)"

definition lower_char :: "char \<Rightarrow> char" where
  "lower_char c =
     (if (65 \<le> ord c \<and> ord c \<le> 90) \<or> (192 \<le> ord c \<and> ord c \<le> 222 \<and> ord c \<noteq> 215)
      then char_of (ord c + 32) else c)"

text \<open>\<^verbatim>\<open>s.lower()\<close>\<close>

definition lower :: "string \<Rightarrow> string" where
  "lower s = map lower_char s"

text \<open>\<^verbatim>\<open>s.strip()\<close>\<close>

definition strip :: "string \<Rightarrow> string" where
  "strip s = rev (dropWhile is_space (rev (dropWhile is_space s)))"

fun startswith :: "string \<Rightarrow> string \<Rightarrow> bool" where
  "startswith s [] = True"
| "startswith [] (p # ps) = False"
| "startswith (c # cs) (p # ps) = (c = p \<and> startswith cs ps)"

text \<open>\<^verbatim>\<open>sub in s\<close>\<close>

fun contains :: "string \<Rightarrow> string \<Rightarrow> bool" where
  "contains sub [] = (sub = [])"
| "contains sub (c # cs) = (startswith (c # cs) sub \<or> contains sub cs)"

text \<open>The number that a run of decimal digits denotes.\<close>

definition py_int :: "string \<Rightarrow> int" where
  "py_int ds = foldl (\<lambda>a c. 10 * a + (int (ord c) - 48)) 0 ds"

text \<open>
  \<^verbatim>\<open>int(digits)\<close> on a run of decimal digits: a run of more than 4300 digits (the
  default of \<^verbatim>\<open>sys.int_max_str_digits\<close>) raises \<^verbatim>\<open>ValueError\<close>.
\<close>

definition int_str :: "string \<Rightarrow> pyexn + int" where
  "int_str ds = (if 4300 < length ds then Inl ValueError else Inr (py_int ds))"

text \<open>
  \<^verbatim>\<open>re.search(r'step\s*(\d+)', s)\<close>: an attempt at one position reads the literal,
  then the longest run of white space, then the longest run of digits, which must not
  be empty (white space and digits are disjoint, so backtracking finds nothing more);
  the search returns group 1 of the leftmost position where the attempt succeeds.
\<close>

definition match_step_at :: "string \<Rightarrow> string option" where
  "match_step_at s =
     (if startswith s ''step''
      then (let ds = takeWhile is_digit (dropWhile is_space (drop 4 s))
            in if ds = [] then None else Some ds)
      else None)"

fun re_search_step :: "string \<Rightarrow> string option" where
  "re_search_step [] = None"
| "re_search_step (c # cs) =
     (case match_step_at (c # cs) of Some ds \<Rightarrow> Some ds | None \<Rightarrow> re_search_step cs)"

section \<open>Cost estimate\<close>

fun HARDWARE_COSTS :: "HardwareType \<Rightarrow> rat" where
  "HARDWARE_COSTS TPU = 322 / 100"
| "HARDWARE_COSTS TRAINIUM = 403 / 100"
| "HARDWARE_COSTS GPU = 1"
| "HARDWARE_COSTS AMD = 80 / 100"

definition model_size_factor :: "string \<rightharpoonup> rat" where
  "model_size_factor =
     [''llama3-2-1b'' \<mapsto> 1, ''llama3-2-3b'' \<mapsto> 5 / 2, ''llama3-1-8b'' \<mapsto> 6,
      ''llama3-1-70b'' \<mapsto> 50, ''llama3-1-405b'' \<mapsto> 300]"

text \<open>
  The body of \<^verbatim>\<open>estimate_cost\<close> inside its \<^verbatim>\<open>try\<close>: the only operation that can
  raise is the division of 8 by the configured batch size.
\<close>

definition estimate_cost_body :: "FineTuningRequest \<Rightarrow> pyexn + CostEstimate" where
  "estimate_cost_body request =
     (let base_hours = (case model_size_factor (r_model request) of
                          None \<Rightarrow> 1 | Some h \<Rightarrow> h);
          batch_size = dict_get (r_config request) ''batch_size'' (PInt 8)
      in case truediv 8 batch_size of
           Inl e \<Rightarrow> Inl e
         | Inr q \<Rightarrow>
             (let estimated_hours = base_hours * q;
                  cph = HARDWARE_COSTS (r_hardware request);
                  cost = estimated_hours * cph
              in Inr \<lparr>estimated_cost = cost, currency = ''USD'',
                      duration_hours = estimated_hours,
                      hardware_type = r_hardware request, cost_per_hour = cph\<rparr>))"

text \<open>\<^verbatim>\<open>except Exception as e: raise HTTPException(status_code=500, detail=str(e))\<close>\<close>

definition estimate_cost :: "FineTuningRequest \<Rightarrow> http_error + CostEstimate" where
  "estimate_cost request =
     (case estimate_cost_body request of
        Inl e \<Rightarrow> Inl (HTTPException 500 (Raised e))
      | Inr c \<Rightarrow> Inr c)"

section \<open>Job store\<close>

text \<open>
  The Redis database maps a key to the stored job; the order of the association list
  is the order in which \<^verbatim>\<open>KEYS\<close> lists the keys.  The clock is what
  \<^verbatim>\<open>datetime.now()\<close> reads; every reading advances it.
\<close>

record world =
  redis :: "(string \<times> TrainingJob) list"
  clock :: nat

definition job_key :: "string \<Rightarrow> string" where
  "job_key jid = ''job:'' @ jid"

definition redis_get :: "world \<Rightarrow> string \<Rightarrow> TrainingJob option" where
  "redis_get w k = map_of (redis w) k"

definition redis_set :: "world \<Rightarrow> string \<Rightarrow> TrainingJob \<Rightarrow> world" where
  "redis_set w k v = w\<lparr>redis := AList.update k v (redis w)\<rparr>"

text \<open>\<^verbatim>\<open>redis_client.keys("job:*")\<close>\<close>

definition redis_keys :: "world \<Rightarrow> string list" where
  "redis_keys w = filter (\<lambda>k. startswith k ''job:'') (map fst (redis w))"

definition tick :: "world \<Rightarrow> world" where
  "tick w = w\<lparr>clock := Suc (clock w)\<rparr>"

text \<open>What a reader of the store sees of one job.\<close>

definition stored_status :: "world \<Rightarrow> string \<Rightarrow> string option" where
  "stored_status w jid = map_option status (redis_get w (job_key jid))"

definition stored_progress :: "world \<Rightarrow> string \<Rightarrow> rat option" where
  "stored_progress w jid = map_option progress (redis_get w (job_key jid))"

definition stored_logs :: "world \<Rightarrow> string \<Rightarrow> string list option" where
  "stored_logs w jid = map_option logs (redis_get w (job_key jid))"

definition stored_metrics :: "world \<Rightarrow> string \<Rightarrow> (string \<rightharpoonup> pyval) option" where
  "stored_metrics w jid = map_option metrics (redis_get w (job_key jid))"

section \<open>Request handlers\<close>

text \<open>
  \<^verbatim>\<open>start_fine_tuning\<close>; \<^verbatim>\<open>uid\<close> stands for \<^verbatim>\<open>uuid.uuid4().hex[:8]\<close>.  The result
  is the job id of the response and the new store; the background task is
  \<^verbatim>\<open>run_felafax_training\<close> on that job id and the request.  Nothing in the body
  raises, so the \<^verbatim>\<open>except\<close> clause has no branch here; the same holds of
  \<^verbatim>\<open>list_jobs\<close>.
\<close>

definition start_fine_tuning :: "FineTuningRequest \<Rightarrow> string \<Rightarrow> world \<Rightarrow> string \<times> world" where
  "start_fine_tuning request uid w =
     (let jid = ''job_'' @ uid;
          job = \<lparr>job_id = jid, model = r_model request, dataset = r_dataset request,
                 status = ''pending'', progress = 0, hardware = r_hardware request,
                 precision = r_precision request, created_at = clock w,
                 updated_at = Suc (clock w), config = r_config request,
                 logs = [], metrics = Map.empty\<rparr>
      in (jid, redis_set (tick (tick w)) (job_key jid) job))"

definition get_job_status :: "world \<Rightarrow> string \<Rightarrow> http_error + TrainingJob" where
  "get_job_status w jid =
     (case redis_get w (job_key jid) of
        None \<Rightarrow> Inl (HTTPException 404 JobNotFound)
      | Some job \<Rightarrow> Inr job)"

text \<open>\<^verbatim>\<open>xs[:limit]\<close>: a negative limit counts from the end.\<close>

definition slice_to :: "'a list \<Rightarrow> int \<Rightarrow> 'a list" where
  "slice_to xs limit =
     (if 0 \<le> limit then take (nat limit) xs else take (length xs - nat (- limit)) xs)"

text \<open>\<^verbatim>\<open>v == user_id\<close> for a string \<^verbatim>\<open>user_id\<close>.\<close>

fun eq_str :: "pyval \<Rightarrow> string \<Rightarrow> bool" where
  "eq_str (PStr s) u = (s = u)"
| "eq_str v u = False"

definition list_jobs :: "world \<Rightarrow> string option \<Rightarrow> int \<Rightarrow> TrainingJob list" where
  "list_jobs w user_id limit =
     List.map_filter
       (\<lambda>key. case redis_get w key of
                None \<Rightarrow> None
              | Some job \<Rightarrow>
                  (case user_id of
                     None \<Rightarrow> Some job
                   | Some u \<Rightarrow>
                       if eq_str (dict_get (config job) ''user_id'' PNone) u
                       then Some job else None))
       (slice_to (redis_keys w) limit)"

definition cancel_job :: "world \<Rightarrow> string \<Rightarrow> http_error + world" where
  "cancel_job w jid =
     (case redis_get w (job_key jid) of
        None \<Rightarrow> Inl (HTTPException 404 JobNotFound)
      | Some job \<Rightarrow>
          Inr (redis_set (tick w) (job_key jid)
                 (job\<lparr>status := ''cancelled'', updated_at := clock w\<rparr>)))"

section \<open>Connection manager\<close>

text \<open>
  A web socket is known by its identity.  \<^verbatim>\<open>ok c\<close> says that \<^verbatim>\<open>send_text\<close>
  on \<^verbatim>\<open>c\<close> returns; otherwise it raises.  The \<^verbatim>\<open>for\<close> loop of
  \<^verbatim>\<open>send_message\<close> walks the list by index while the handler removes from the same
  list: the iterator reads position \<^verbatim>\<open>i\<close> of the list as it is then and stops when
  \<^verbatim>\<open>i\<close> reaches its length.
\<close>

function send_loop ::
  "(nat \<Rightarrow> bool) \<Rightarrow> string \<Rightarrow> nat \<Rightarrow> nat list \<Rightarrow> (nat \<times> string) list
     \<Rightarrow> nat list \<times> (nat \<times> string) list" where
  "send_loop ok message i conns sent =
     (if i < length conns
      then (if ok (conns ! i)
            then send_loop ok message (Suc i) conns (sent @ [(conns ! i, message)])
            else send_loop ok message (Suc i) (remove1 (conns ! i) conns) sent)
      else (conns, sent))"
  by pat_completeness auto
termination
  by (relation "measure (\<lambda>(ok, message, i, conns, sent). length conns - i)")
     (auto simp: length_remove1)

record ConnectionManager =
  active_connections :: "string \<rightharpoonup> nat list"

text \<open>The result is the manager after the call and the messages delivered, in order.\<close>

definition send_message ::
  "(nat \<Rightarrow> bool) \<Rightarrow> ConnectionManager \<Rightarrow> string \<Rightarrow> string
     \<Rightarrow> ConnectionManager \<times> (nat \<times> string) list" where
  "send_message ok manager message jid =
     (case active_connections manager jid of
        None \<Rightarrow> (manager, [])
      | Some conns \<Rightarrow>
          (case send_loop ok message 0 conns [] of
             (conns', sent) \<Rightarrow>
               (manager\<lparr>active_connections := (active_connections manager)(jid \<mapsto> conns')\<rparr>,
                sent)))"

section \<open>Training monitor\<close>

text \<open>
  What the environment does in one run of \<^verbatim>\<open>run_felafax_training\<close>: writing the
  configuration file raises, or \<^verbatim>\<open>Popen\<close> raises, or the process starts, writes its
  lines and then either exits with a return code or reading its output raises.
\<close>

datatype proc_end = Exit int | ReadError

datatype proc_run = ConfigWriteError | SpawnError | Spawned "string list" proc_end

text \<open>The body of the \<^verbatim>\<open>try\<close> that parses the progress of a line.\<close>

definition parse_progress :: "FineTuningRequest \<Rightarrow> string \<Rightarrow> pyexn + rat option" where
  "parse_progress request line =
     (case re_search_step (lower line) of
        None \<Rightarrow> Inr None
      | Some ds \<Rightarrow>
          (case int_str ds of
             Inl e \<Rightarrow> Inl e
           | Inr step \<Rightarrow>
               (let max_steps = dict_get (r_config request) ''num_steps'' (PInt 1000)
                in case truediv step max_steps of
                     Inl e \<Rightarrow> Inl e
                   | Inr q \<Rightarrow> Inr (Some (min (q * 100) 100)))))"

text \<open>The guarded update of \<^verbatim>\<open>job_dict['progress']\<close>; \<^verbatim>\<open>except: pass\<close>.\<close>

definition update_progress :: "FineTuningRequest \<Rightarrow> string \<Rightarrow> TrainingJob \<Rightarrow> TrainingJob" where
  "update_progress request line job =
     (if contains ''step'' (lower line) \<and> contains ''loss'' (lower line)
      then (case parse_progress request line of
              Inl e \<Rightarrow> job
            | Inr None \<Rightarrow> job
            | Inr (Some p) \<Rightarrow> job\<lparr>progress := p\<rparr>)
      else job)"

text \<open>\<^verbatim>\<open>logs[-100:]\<close>\<close>

definition last100 :: "string list \<Rightarrow> string list" where
  "last100 ls = drop (length ls - 100) ls"

text \<open>The store update for one line, \<^verbatim>\<open>logs\<close> being the list after the append.\<close>

definition process_line :: "string \<Rightarrow> FineTuningRequest \<Rightarrow> string \<Rightarrow> string list \<Rightarrow> world \<Rightarrow> world" where
  "process_line jid request line ls w =
     (case redis_get w (job_key jid) of
        None \<Rightarrow> w
      | Some job \<Rightarrow>
          redis_set (tick w) (job_key jid)
            (update_progress request line (job\<lparr>logs := last100 ls, updated_at := clock w\<rparr>)))"

text \<open>
  The loop over \<^verbatim>\<open>iter(process.stdout.readline, '')\<close>: the empty string is the
  sentinel that ends the iteration.
\<close>

fun monitor_lines ::
  "string \<Rightarrow> FineTuningRequest \<Rightarrow> string list \<Rightarrow> string list \<Rightarrow> world
     \<Rightarrow> string list \<times> world" where
  "monitor_lines jid request [] ls w = (ls, w)"
| "monitor_lines jid request (line # rest) ls w =
     (if line = [] then (ls, w)
      else monitor_lines jid request rest (ls @ [strip line])
             (process_line jid request line (ls @ [strip line]) w))"

definition mark_running :: "string \<Rightarrow> world \<Rightarrow> world" where
  "mark_running jid w =
     (case redis_get w (job_key jid) of
        None \<Rightarrow> w
      | Some job \<Rightarrow>
          redis_set (tick w) (job_key jid) (job\<lparr>status := ''running'', updated_at := clock w\<rparr>))"

text \<open>The update after \<^verbatim>\<open>process.wait()\<close>.\<close>

definition finish :: "string \<Rightarrow> int \<Rightarrow> world \<Rightarrow> world" where
  "finish jid return_code w =
     (case redis_get w (job_key jid) of
        None \<Rightarrow> w
      | Some job \<Rightarrow>
          redis_set (tick w) (job_key jid)
            (job\<lparr>status := (if return_code = 0 then ''completed'' else ''failed''),
                 progress := 100, updated_at := clock w\<rparr>))"

text \<open>The \<^verbatim>\<open>except Exception\<close> handler of the monitor.\<close>

definition on_exception :: "string \<Rightarrow> world \<Rightarrow> world" where
  "on_exception jid w =
     (case redis_get w (job_key jid) of
        None \<Rightarrow> w
      | Some job \<Rightarrow>
          redis_set (tick w) (job_key jid) (job\<lparr>status := ''failed'', updated_at := clock w\<rparr>))"

definition run_felafax_training :: "string \<Rightarrow> FineTuningRequest \<Rightarrow> proc_run \<Rightarrow> world \<Rightarrow> world" where
  "run_felafax_training jid request run w =
     (let w1 = mark_running jid w
      in case run of
           ConfigWriteError \<Rightarrow> on_exception jid w1
         | SpawnError \<Rightarrow> on_exception jid w1
         | Spawned lines ending \<Rightarrow>
             (case monitor_lines jid request lines [] w1 of
                (ls, w2) \<Rightarrow>
                  (case ending of
                     Exit return_code \<Rightarrow> finish jid return_code w2
                   | ReadError \<Rightarrow> on_exception jid w2)))"

text \<open>Whether the environment of a run makes the body of the monitor raise.\<close>

fun raises :: "proc_run \<Rightarrow> bool" where
  "raises ConfigWriteError = True"
| "raises SpawnError = True"
| "raises (Spawned lines ending) = (ending = ReadError)"

section \<open>Example inputs\<close>

definition example_request :: "(string \<rightharpoonup> pyval) \<Rightarrow> FineTuningRequest" where
  "example_request cfg =
     \<lparr>r_model = ''llama3-2-1b'', r_dataset = ''alpaca'', r_config = cfg,
      r_hardware = GPU, r_precision = BFLOAT16, r_user_id = Some ''alice''\<rparr>"

definition example_job :: "string \<Rightarrow> rat \<Rightarrow> TrainingJob" where
  "example_job st p =
     \<lparr>job_id = ''job_1'', model = ''llama3-2-1b'', dataset = ''alpaca'', status = st,
      progress = p, hardware = GPU, precision = BFLOAT16, created_at = 0, updated_at = 1,
      config = Map.empty, logs = [], metrics = Map.empty\<rparr>"

definition example_world :: "string \<Rightarrow> rat \<Rightarrow> world" where
  "example_world st p = \<lparr>redis = [(''job:job_1'', example_job st p)], clock = 2\<rparr>"

text \<open>An output line whose step number is \<open>10 ^ 312\<close>, beyond the range of a float.\<close>

definition huge_step_line :: string where
  "huge_step_line = ''step 1'' @ replicate 312 (CHR ''0'') @ '' loss 0.29''"

section \<open>Properties of the cost estimate\<close>

lemma float_overflow_div_int:
  assumes "n \<noteq> 0" and "float_overflow (of_int a / of_int n)"
  shows "float_overflow (of_int a)"
proof -
  from assms(1) have "(1::int) \<le> \<bar>n\<bar>"
    by arith
  then have "(of_int 1 :: rat) \<le> of_int \<bar>n\<bar>"
    by (simp only: of_int_le_iff)
  then have "(1::rat) \<le> \<bar>of_int n\<bar>"
    by simp
  then have "\<bar>of_int a / of_int n :: rat\<bar> \<le> \<bar>of_int a\<bar>"
    by (simp add: field_simps mult_le_cancel_left1)
  with assms(2) show ?thesis
    by (simp add: float_overflow_def)
qed

lemma truediv_num_of:
  assumes "\<not> float_overflow (of_int a)"
  shows "truediv a v =
     (case num_of v of
        None \<Rightarrow> Inl TypeError
      | Some b \<Rightarrow> if b = 0 then Inl ZeroDivisionError else Inr (of_int a / b))"
  using assms float_overflow_div_int [of _ a] by (cases v) auto

lemma eight_in_range: "\<not> float_overflow (of_int 8)"
  by (simp add: float_overflow_def)

lemma estimate_cost_num:
  assumes "num_of (dict_get (r_config request) ''batch_size'' (PInt 8)) = Some b"
  shows "estimate_cost request =
     (if b = 0 then Inl (HTTPException 500 (Raised ZeroDivisionError))
      else Inr \<lparr>estimated_cost =
                  (case model_size_factor (r_model request) of None \<Rightarrow> 1 | Some h \<Rightarrow> h)
                    * (8 / b) * HARDWARE_COSTS (r_hardware request),
                currency = ''USD'',
                duration_hours =
                  (case model_size_factor (r_model request) of None \<Rightarrow> 1 | Some h \<Rightarrow> h)
                    * (8 / b),
                hardware_type = r_hardware request,
                cost_per_hour = HARDWARE_COSTS (r_hardware request)\<rparr>)"
  using assms
  by (simp add: estimate_cost_def estimate_cost_body_def truediv_num_of [OF eight_in_range]
        Let_def)

text \<open>
  C5, as the code has it: a request whose batch size is the number zero fails with the
  status 500 that wraps the \<^verbatim>\<open>ZeroDivisionError\<close>; a request whose batch size is any
  other number, positive or negative, succeeds.  The operation is a function of the
  request alone and touches no store.
\<close>

theorem estimate_cost_batch_size:
  assumes "num_of (dict_get (r_config request) ''batch_size'' (PInt 8)) = Some b"
  shows "(b = 0 \<longrightarrow> estimate_cost request = Inl (HTTPException 500 (Raised ZeroDivisionError)))
       \<and> (b \<noteq> 0 \<longrightarrow> (\<exists>c. estimate_cost request = Inr c))"
  by (simp add: estimate_cost_num [OF assms])

theorem estimate_cost_batch_size_witness:
  "num_of (dict_get (r_config (example_request [''batch_size'' \<mapsto> PInt 0])) ''batch_size'' (PInt 8))
     = Some 0
   \<and> estimate_cost (example_request [''batch_size'' \<mapsto> PInt 0])
     = Inl (HTTPException 500 (Raised ZeroDivisionError))
   \<and> num_of (dict_get (r_config (example_request [''batch_size'' \<mapsto> PInt 4])) ''batch_size'' (PInt 8))
     = Some 4
   \<and> (\<exists>c. estimate_cost (example_request [''batch_size'' \<mapsto> PInt 4]) = Inr c)"
  using estimate_cost_batch_size [of "example_request [''batch_size'' \<mapsto> PInt 0]" 0]
    estimate_cost_batch_size [of "example_request [''batch_size'' \<mapsto> PInt 4]" 4]
  by (simp add: example_request_def dict_get_def)

text \<open>
  C5 as stated fails: with batch size zero the error is the status 500 of the catch-all
  handler, not a rejection of the input, and with the negative batch size \<open>-8\<close> the
  operation succeeds, with a negative duration.
\<close>

theorem estimate_cost_nonpositive_counterexample:
  "estimate_cost (example_request [''batch_size'' \<mapsto> PInt 0])
     = Inl (HTTPException 500 (Raised ZeroDivisionError))
   \<and> estimate_cost (example_request [''batch_size'' \<mapsto> PInt (- 8)])
     = Inr \<lparr>estimated_cost = - 1, currency = ''USD'', duration_hours = - 1,
            hardware_type = GPU, cost_per_hour = 1\<rparr>"
  by (simp add: estimate_cost_def estimate_cost_body_def example_request_def dict_get_def
        model_size_factor_def float_overflow_def Let_def)

text \<open>
  C6: for a batch size \<open>b > 0\<close> the estimate succeeds with
  \<open>duration_hours = base_hours * (8 / b)\<close> and
  \<open>estimated_cost = duration_hours * HARDWARE_COSTS hardware\<close>, the base hours being
  the entry of the model table, or 1 for a model that is not in it.
\<close>

theorem estimate_cost_formula:
  assumes "num_of (dict_get (r_config request) ''batch_size'' (PInt 8)) = Some b"
    and "0 < b"
  shows "\<exists>c. estimate_cost request = Inr c
           \<and> duration_hours c =
               (case model_size_factor (r_model request) of None \<Rightarrow> 1 | Some h \<Rightarrow> h) * (8 / b)
           \<and> estimated_cost c = duration_hours c * HARDWARE_COSTS (r_hardware request)
           \<and> cost_per_hour c = HARDWARE_COSTS (r_hardware request)
           \<and> hardware_type c = r_hardware request"
  using assms by (simp add: estimate_cost_num)

theorem estimate_cost_formula_witness:
  "num_of (dict_get (r_config (example_request [''batch_size'' \<mapsto> PInt 8])) ''batch_size'' (PInt 8))
     = Some 8
   \<and> (0::rat) < 8
   \<and> (\<exists>c. estimate_cost (example_request [''batch_size'' \<mapsto> PInt 8]) = Inr c
         \<and> duration_hours c = 1 \<and> estimated_cost c = 1 \<and> cost_per_hour c = 1
         \<and> hardware_type c = GPU)"
  using estimate_cost_formula [of "example_request [''batch_size'' \<mapsto> PInt 8]" 8]
  by (auto simp add: example_request_def dict_get_def model_size_factor_def)

section \<open>Properties of the connection manager\<close>

text \<open>
  C9 does not hold of the code: with the subscribers \<open>[1, 2]\<close> of a job, of which
  the first is dead and the second alive, removing the first inside the loop makes the
  iterator pass over the second, which receives nothing.
\<close>

theorem send_message_skips_live_subscriber:
  "send_message (\<lambda>c. c \<noteq> 1) \<lparr>active_connections = [''job_1'' \<mapsto> [1, 2]]\<rparr>
     ''snapshot'' ''job_1''
   = (\<lparr>active_connections = [''job_1'' \<mapsto> [2]]\<rparr>, [])"
  by (simp add: send_message_def)

section \<open>Properties of the monitor\<close>

lemma redis_get_set:
  "redis_get (redis_set w k v) k' = (if k' = k then Some v else redis_get w k')"
  by (simp add: redis_get_def redis_set_def update_conv')

lemma redis_get_tick: "redis_get (tick w) k = redis_get w k"
  by (simp add: redis_get_def tick_def)

lemma update_progress_cases:
  "update_progress request line job = job
   \<or> (\<exists>p. update_progress request line job = job\<lparr>progress := p\<rparr>)"
  by (auto simp: update_progress_def split: sum.splits option.splits)

lemma update_progress_fields:
  "status (update_progress request line job) = status job"
  "logs (update_progress request line job) = logs job"
  "metrics (update_progress request line job) = metrics job"
  "config (update_progress request line job) = config job"
  using update_progress_cases [of request line job] by auto

lemma process_line_get:
  assumes "redis_get w (job_key jid) = Some job"
  shows "redis_get (process_line jid request line ls w) (job_key jid)
         = Some (update_progress request line (job\<lparr>logs := last100 ls, updated_at := clock w\<rparr>))"
  using assms by (simp add: process_line_def redis_get_set)

lemma process_line_present:
  "redis_get w (job_key jid) = Some job \<Longrightarrow>
   \<exists>job'. redis_get (process_line jid request line ls w) (job_key jid) = Some job'"
  by (simp add: process_line_get)

lemma process_line_status:
  "map_option status (redis_get (process_line jid request line ls w) (job_key jid))
     = map_option status (redis_get w (job_key jid))"
proof (cases "redis_get w (job_key jid)")
  case None
  then show ?thesis by (simp add: process_line_def)
next
  case (Some job)
  then show ?thesis by (simp add: process_line_get update_progress_fields)
qed

lemma process_line_metrics:
  "map_option metrics (redis_get (process_line jid request line ls w) (job_key jid))
     = map_option metrics (redis_get w (job_key jid))"
proof (cases "redis_get w (job_key jid)")
  case None
  then show ?thesis by (simp add: process_line_def)
next
  case (Some job)
  then show ?thesis by (simp add: process_line_get update_progress_fields)
qed

lemma monitor_lines_present:
  "redis_get w (job_key jid) = Some job \<Longrightarrow>
   \<exists>job'. redis_get (snd (monitor_lines jid request lines ls w)) (job_key jid) = Some job'"
proof (induction lines arbitrary: ls w job)
  case Nil
  then show ?case by simp
next
  case (Cons line rest)
  show ?case
  proof (cases "line = []")
    case True
    with Cons.prems show ?thesis by simp
  next
    case False
    from process_line_present [OF Cons.prems]
    obtain job' where
      "redis_get (process_line jid request line (ls @ [strip line]) w) (job_key jid) = Some job'"
      by blast
    from Cons.IH [OF this] False show ?thesis by simp
  qed
qed

lemma monitor_lines_status:
  "map_option status (redis_get (snd (monitor_lines jid request lines ls w)) (job_key jid))
     = map_option status (redis_get w (job_key jid))"
  by (induction lines arbitrary: ls w) (simp_all add: process_line_status)

lemma monitor_lines_metrics:
  "map_option metrics (redis_get (snd (monitor_lines jid request lines ls w)) (job_key jid))
     = map_option metrics (redis_get w (job_key jid))"
  by (induction lines arbitrary: ls w) (simp_all add: process_line_metrics)

lemma monitor_lines_append:
  "[] \<notin> set xs \<Longrightarrow>
   monitor_lines jid request (xs @ ys) ls w =
     monitor_lines jid request ys (fst (monitor_lines jid request xs ls w))
       (snd (monitor_lines jid request xs ls w))"
  by (induction xs arbitrary: ls w) auto

lemma monitor_lines_fst:
  "[] \<notin> set xs \<Longrightarrow> fst (monitor_lines jid request xs ls w) = ls @ map strip xs"
  by (induction xs arbitrary: ls w) auto

lemma last100_length: "length (last100 xs) \<le> 100"
  by (simp add: last100_def)

lemma last100_last: "xs \<noteq> [] \<Longrightarrow> last100 xs \<noteq> [] \<and> last (last100 xs) = last xs"
  by (cases "length xs \<le> 100") (auto simp: last100_def)

lemma mark_running_get:
  "redis_get w (job_key jid) = Some job \<Longrightarrow>
   redis_get (mark_running jid w) (job_key jid)
     = Some (job\<lparr>status := ''running'', updated_at := clock w\<rparr>)"
  by (simp add: mark_running_def redis_get_set)

lemma finish_get:
  "redis_get w (job_key jid) = Some job \<Longrightarrow>
   redis_get (finish jid rc w) (job_key jid)
     = Some (job\<lparr>status := (if rc = 0 then ''completed'' else ''failed''),
                    progress := 100, updated_at := clock w\<rparr>)"
  by (simp add: finish_def redis_get_set)

lemma on_exception_get:
  "redis_get w (job_key jid) = Some job \<Longrightarrow>
   redis_get (on_exception jid w) (job_key jid)
     = Some (job\<lparr>status := ''failed'', updated_at := clock w\<rparr>)"
  by (simp add: on_exception_def redis_get_set)

lemma not_raises_exit:
  "\<not> raises run \<longleftrightarrow> (\<exists>lines rc. run = Spawned lines (Exit rc))"
proof (cases run)
  case (Spawned lines ending)
  then show ?thesis by (cases ending) simp_all
qed simp_all

lemma run_exit_stored:
  assumes "redis_get w (job_key jid) = Some job"
  shows "stored_status (run_felafax_training jid request (Spawned lines (Exit rc)) w) jid
           = Some (if rc = 0 then ''completed'' else ''failed'')
         \<and> stored_progress (run_felafax_training jid request (Spawned lines (Exit rc)) w) jid
           = Some 100"
proof -
  let ?w1 = "mark_running jid w"
  let ?w2 = "snd (monitor_lines jid request lines [] ?w1)"
  from mark_running_get [OF assms] monitor_lines_present [of ?w1 jid _ request lines "[]"]
  obtain job2 where j2: "redis_get ?w2 (job_key jid) = Some job2"
    by blast
  have run: "run_felafax_training jid request (Spawned lines (Exit rc)) w = finish jid rc ?w2"
    by (simp add: run_felafax_training_def split: prod.splits)
  show ?thesis
    by (simp add: run stored_status_def stored_progress_def finish_get [OF j2])
qed

lemma run_raises_stored:
  assumes "redis_get w (job_key jid) = Some job" and "raises run"
  shows "stored_status (run_felafax_training jid request run w) jid = Some ''failed''
         \<and> stored_metrics (run_felafax_training jid request run w) jid = Some (metrics job)"
proof -
  let ?w1 = "mark_running jid w"
  have g1: "redis_get ?w1 (job_key jid) = Some (job\<lparr>status := ''running'', updated_at := clock w\<rparr>)"
    by (rule mark_running_get [OF assms(1)])
  show ?thesis
  proof (cases run)
    case ConfigWriteError
    then show ?thesis
      by (simp add: run_felafax_training_def stored_status_def stored_metrics_def
            on_exception_get [OF g1])
  next
    case SpawnError
    then show ?thesis
      by (simp add: run_felafax_training_def stored_status_def stored_metrics_def
            on_exception_get [OF g1])
  next
    case (Spawned lines ending)
    let ?w2 = "snd (monitor_lines jid request lines [] ?w1)"
    from monitor_lines_present [OF g1]
    obtain job2 where j2: "redis_get ?w2 (job_key jid) = Some job2"
      by blast
    have m2: "metrics job2 = metrics job"
      using monitor_lines_metrics [of jid request lines "[]" ?w1] j2 g1 by simp
    from Spawned assms(2) have run:
      "run_felafax_training jid request run w = on_exception jid ?w2"
      by (simp add: run_felafax_training_def split: prod.splits)
    show ?thesis
      by (simp add: run stored_status_def stored_metrics_def on_exception_get [OF j2] m2)
  qed
qed

text \<open>
  C4: when the process has started and its output has ended, the stored job gets the
  state decided by the return code, \<open>completed\<close> for 0 and \<open>failed\<close> otherwise, and
  progress 100.
\<close>

theorem exit_code_decides_final_state:
  assumes "redis_get w (job_key jid) = Some job"
  shows "stored_status (run_felafax_training jid request (Spawned lines (Exit rc)) w) jid
           = Some (if rc = 0 then ''completed'' else ''failed'')
         \<and> stored_progress (run_felafax_training jid request (Spawned lines (Exit rc)) w) jid
           = Some 100"
  by (rule run_exit_stored [OF assms])

theorem exit_code_decides_final_state_witness:
  "redis_get (example_world ''pending'' 0) (job_key ''job_1'') = Some (example_job ''pending'' 0)
   \<and> stored_status
        (run_felafax_training ''job_1'' (example_request Map.empty)
           (Spawned [''step 500 loss 0.31''] (Exit 1)) (example_world ''pending'' 0)) ''job_1''
       = Some ''failed''
   \<and> stored_progress
        (run_felafax_training ''job_1'' (example_request Map.empty)
           (Spawned [''step 500 loss 0.31''] (Exit 1)) (example_world ''pending'' 0)) ''job_1''
       = Some 100"
  using exit_code_decides_final_state [of "example_world ''pending'' 0" "''job_1''"
      "example_job ''pending'' 0" "example_request Map.empty" "[''step 500 loss 0.31'']" 1]
  by (simp add: example_world_def redis_get_def job_key_def)

text \<open>
  C7, as the code has it: when the body of the monitor raises (writing the
  configuration, starting the process or reading its output), the stored job gets the
  state \<open>failed\<close>, and its metrics stay what they were: the error is logged, not
  stored.  However the run ends, the stored job is not left in the state \<open>running\<close>.
\<close>

theorem fault_marks_failed_only:
  assumes "redis_get w (job_key jid) = Some job"
  shows "(raises run \<longrightarrow>
            stored_status (run_felafax_training jid request run w) jid = Some ''failed''
          \<and> stored_metrics (run_felafax_training jid request run w) jid = Some (metrics job))
       \<and> stored_status (run_felafax_training jid request run w) jid \<noteq> Some ''running''"
proof (cases "raises run")
  case True
  from run_raises_stored [OF assms True, of request] show ?thesis
    by simp
next
  case False
  then obtain lines rc where "run = Spawned lines (Exit rc)"
    using not_raises_exit by blast
  with run_exit_stored [OF assms, of request lines rc] False show ?thesis
    by simp
qed

theorem fault_marks_failed_only_witness:
  "redis_get (example_world ''pending'' 0) (job_key ''job_1'') = Some (example_job ''pending'' 0)
   \<and> raises (Spawned [''epoch 1''] ReadError)
   \<and> stored_status
        (run_felafax_training ''job_1'' (example_request Map.empty)
           (Spawned [''epoch 1''] ReadError) (example_world ''pending'' 0)) ''job_1''
       = Some ''failed''
   \<and> stored_metrics
        (run_felafax_training ''job_1'' (example_request Map.empty)
           (Spawned [''epoch 1''] ReadError) (example_world ''pending'' 0)) ''job_1''
       = Some Map.empty"
  using fault_marks_failed_only [of "example_world ''pending'' 0" "''job_1''"
      "example_job ''pending'' 0" "Spawned [''epoch 1''] ReadError" "example_request Map.empty"]
  by (simp add: example_world_def example_job_def redis_get_def job_key_def)

text \<open>
  C7 as stated fails: after a failure to start the process the metrics of the job are
  still empty, so the error is recorded nowhere in the job.
\<close>

theorem spawn_error_not_in_metrics_counterexample:
  "stored_metrics
     (run_felafax_training ''job_1'' (example_request Map.empty) SpawnError
        (example_world ''pending'' 0)) ''job_1''
   = Some Map.empty"
proof -
  have "redis_get (example_world ''pending'' 0) (job_key ''job_1'')
      = Some (example_job ''pending'' 0)"
    by (simp add: example_world_def redis_get_def job_key_def)
  from on_exception_get [OF mark_running_get [OF this]] show ?thesis
    by (simp add: run_felafax_training_def stored_metrics_def example_job_def)
qed

text \<open>
  C8: after the update for a line, whatever lines came before it, the stored log holds
  at most 100 entries and its last entry is that line (as stored, that is stripped of
  surrounding white space); the log is the last 100 of the stripped lines read so far,
  in their order.
\<close>

theorem log_tail_bounded:
  assumes "redis_get w (job_key jid) = Some job"
    and "[] \<notin> set lines" and "line \<noteq> []"
  shows "\<exists>tail. stored_logs (snd (monitor_lines jid request (lines @ [line]) [] w)) jid = Some tail
           \<and> tail = last100 (map strip (lines @ [line]))
           \<and> length tail \<le> 100 \<and> tail \<noteq> [] \<and> last tail = strip line"
proof -
  let ?w1 = "snd (monitor_lines jid request lines [] w)"
  from monitor_lines_present [OF assms(1)]
  obtain job1 where j1: "redis_get ?w1 (job_key jid) = Some job1"
    by blast
  have step: "monitor_lines jid request (lines @ [line]) [] w
      = (map strip lines @ [strip line],
         process_line jid request line (map strip lines @ [strip line]) ?w1)"
    using assms(2,3) by (simp add: monitor_lines_append monitor_lines_fst)
  have "stored_logs (snd (monitor_lines jid request (lines @ [line]) [] w)) jid
      = Some (last100 (map strip lines @ [strip line]))"
    by (simp add: step stored_logs_def process_line_get [OF j1] update_progress_fields)
  moreover have "length (last100 (map strip lines @ [strip line])) \<le> 100"
    by (rule last100_length)
  moreover have "last100 (map strip lines @ [strip line]) \<noteq> []
      \<and> last (last100 (map strip lines @ [strip line])) = strip line"
    using last100_last [of "map strip lines @ [strip line]"] by simp
  ultimately show ?thesis by simp
qed

theorem log_tail_bounded_witness:
  "redis_get (example_world ''running'' 0) (job_key ''job_1'') = Some (example_job ''running'' 0)
   \<and> [] \<notin> set [''epoch 1'']
   \<and> ''step 500 loss 0.31 '' \<noteq> []
   \<and> (\<exists>tail. stored_logs
          (snd (monitor_lines ''job_1'' (example_request Map.empty)
                  ([''epoch 1''] @ [''step 500 loss 0.31 '']) [] (example_world ''running'' 0)))
          ''job_1'' = Some tail
        \<and> length tail \<le> 100 \<and> tail \<noteq> [] \<and> last tail = ''step 500 loss 0.31'')"
  using log_tail_bounded [of "example_world ''running'' 0" "''job_1''"
      "example_job ''running'' 0" "[''epoch 1'']" "''step 500 loss 0.31 ''"
      "example_request Map.empty"]
  by (simp add: example_world_def redis_get_def job_key_def strip_def is_space_def ord_def)

section \<open>Progress parsed from the output\<close>

lemma truediv_value:
  assumes "num_of v = Some N" and "N \<noteq> 0"
    and "\<not> float_overflow (of_int a)
         \<or> (\<exists>n. v = PInt n \<and> \<not> float_overflow (of_int a / of_int n))"
  shows "truediv a v = Inr (of_int a / N)"
proof (cases v)
  case (PInt n)
  with assms(1,2) have n: "n \<noteq> 0" and N: "N = of_int n"
    by auto
  from assms(3) PInt n have "\<not> float_overflow (of_int a / of_int n)"
    using float_overflow_div_int [of n a] by auto
  with PInt n N show ?thesis by simp
qed (use assms in \<open>auto split: if_splits\<close>)

lemma truediv_raises:
  assumes "num_of v = None \<or> num_of v = Some 0
         \<or> (\<exists>n. v = PInt n \<and> float_overflow (of_int a / of_int n))
         \<or> ((\<forall>n. v \<noteq> PInt n) \<and> float_overflow (of_int a))"
  shows "\<exists>e. truediv a v = Inl e"
  using assms by (cases v) (auto split: if_splits)

lemma parse_progress_value:
  assumes "re_search_step (lower line) = Some ds" and "length ds \<le> 4300"
    and "num_of (dict_get (r_config request) ''num_steps'' (PInt 1000)) = Some N"
    and "N \<noteq> 0"
    and "\<not> float_overflow (of_int (py_int ds))
         \<or> (\<exists>n. dict_get (r_config request) ''num_steps'' (PInt 1000) = PInt n
                \<and> \<not> float_overflow (of_int (py_int ds) / of_int n))"
  shows "parse_progress request line = Inr (Some (min 100 (100 * of_int (py_int ds) / N)))"
  using assms(1,2) truediv_value [OF assms(3-5)]
  by (simp add: parse_progress_def int_str_def Let_def min.commute mult.commute)

lemma parse_progress_raises:
  assumes "re_search_step (lower line) = Some ds"
    and "4300 < length ds
         \<or> num_of (dict_get (r_config request) ''num_steps'' (PInt 1000)) = None
         \<or> num_of (dict_get (r_config request) ''num_steps'' (PInt 1000)) = Some 0
         \<or> (\<exists>n. dict_get (r_config request) ''num_steps'' (PInt 1000) = PInt n
                \<and> float_overflow (of_int (py_int ds) / of_int n))
         \<or> ((\<forall>n. dict_get (r_config request) ''num_steps'' (PInt 1000) \<noteq> PInt n)
                \<and> float_overflow (of_int (py_int ds)))"
  shows "\<exists>e. parse_progress request line = Inl e"
proof (cases "4300 < length ds")
  case True
  with assms(1) show ?thesis
    by (simp add: parse_progress_def int_str_def)
next
  case False
  with assms(2) truediv_raises [of "dict_get (r_config request) ''num_steps'' (PInt 1000)"
      "py_int ds"]
  obtain e where "truediv (py_int ds) (dict_get (r_config request) ''num_steps'' (PInt 1000))
      = Inl e"
    by blast
  with assms(1) False show ?thesis
    by (simp add: parse_progress_def int_str_def Let_def)
qed

lemma update_progress_step:
  assumes "contains ''step'' (lower line)" and "contains ''loss'' (lower line)"
    and "re_search_step (lower line) = Some ds" and "length ds \<le> 4300"
    and "num_of (dict_get (r_config request) ''num_steps'' (PInt 1000)) = Some N"
    and "N \<noteq> 0"
    and "\<not> float_overflow (of_int (py_int ds))
         \<or> (\<exists>n. dict_get (r_config request) ''num_steps'' (PInt 1000) = PInt n
                \<and> \<not> float_overflow (of_int (py_int ds) / of_int n))"
  shows "update_progress request line job
       = job\<lparr>progress := min 100 (100 * of_int (py_int ds) / N)\<rparr>"
  using assms(1,2) by (simp add: update_progress_def parse_progress_value [OF assms(3-7)])

lemma update_progress_skip:
  assumes "\<not> contains ''step'' (lower line) \<or> \<not> contains ''loss'' (lower line)
         \<or> re_search_step (lower line) = None
         \<or> (\<exists>e. parse_progress request line = Inl e)"
  shows "update_progress request line job = job"
  using assms by (auto simp: update_progress_def parse_progress_def)

lemma small_step_in_range: "\<bar>x\<bar> \<le> 1000000 \<Longrightarrow> \<not> float_overflow x"
  by (simp add: float_overflow_def)

lemma line_500:
  "contains ''step'' (lower ''step 500 loss 0.31'')
   \<and> contains ''loss'' (lower ''step 500 loss 0.31'')
   \<and> re_search_step (lower ''step 500 loss 0.31'') = Some ''500''
   \<and> py_int ''500'' = 500"
  by code_simp

lemma line_200:
  "contains ''step'' (lower ''step 200 loss 0.52'')
   \<and> contains ''loss'' (lower ''step 200 loss 0.52'')
   \<and> re_search_step (lower ''step 200 loss 0.52'') = Some ''200''
   \<and> py_int ''200'' = 200"
  by code_simp

lemma line_epoch: "\<not> contains ''step'' (lower ''Epoch 1 done'')"
  by code_simp

lemma line_huge:
  "contains ''step'' (lower huge_step_line)
   \<and> contains ''loss'' (lower huge_step_line)
   \<and> re_search_step (lower huge_step_line) = Some (CHR ''1'' # replicate 312 (CHR ''0''))"
  unfolding huge_step_line_def by code_simp

lemma step_huge: "py_int (CHR ''1'' # replicate 312 (CHR ''0'')) = 10 ^ 312"
  by code_simp

lemma step_huge_overflow: "float_overflow (of_int (10 ^ 312) / of_int 1000)"
  by (simp add: float_overflow_def)

text \<open>
  C3: for a line that contains \<open>step\<close> and \<open>loss\<close> in lower case and in which the
  search finds the digits \<open>ds\<close>, the update of the line stores the progress
  \<open>min 100 (100 * int ds / N)\<close>, where \<open>N\<close> is the number at \<open>num_steps\<close> in the
  configuration, 1000 when the key is absent.  The formula is what the code computes
  where its arithmetic returns: \<open>N \<noteq> 0\<close>, at most 4300 digits, and a step number (or,
  for an integer \<open>N\<close>, a quotient) inside the range of a float.  A line that fails the
  test or the search, and a line whose conversion or division raises (a \<open>num_steps\<close>
  that is zero or not a number, more than 4300 digits, a value outside the range of a
  float), leave the stored progress as it was: the exception is swallowed, and the
  update is a total function, so the loop goes on with the next line.
\<close>

theorem step_line_progress:
  assumes "redis_get w (job_key jid) = Some job"
    and "max_steps = dict_get (r_config request) ''num_steps'' (PInt 1000)"
  shows "(contains ''step'' (lower line) \<and> contains ''loss'' (lower line)
          \<and> re_search_step (lower line) = Some ds \<and> length ds \<le> 4300
          \<and> num_of max_steps = Some N \<and> N \<noteq> 0
          \<and> (\<not> float_overflow (of_int (py_int ds))
               \<or> (\<exists>n. max_steps = PInt n \<and> \<not> float_overflow (of_int (py_int ds) / of_int n)))
          \<longrightarrow> stored_progress (process_line jid request line ls w) jid
                = Some (min 100 (100 * of_int (py_int ds) / N)))
       \<and> (contains ''step'' (lower line) \<and> contains ''loss'' (lower line)
          \<and> re_search_step (lower line) = Some ds \<and> length ds \<le> 4300
          \<and> r_config request ''num_steps'' = None
          \<and> \<not> float_overflow (of_int (py_int ds) / 1000)
          \<longrightarrow> stored_progress (process_line jid request line ls w) jid
                = Some (min 100 (100 * of_int (py_int ds) / 1000)))
       \<and> (\<not> contains ''step'' (lower line) \<or> \<not> contains ''loss'' (lower line)
          \<or> re_search_step (lower line) = None
          \<or> num_of max_steps = None \<or> num_of max_steps = Some 0
          \<longrightarrow> stored_progress (process_line jid request line ls w) jid = Some (progress job))
       \<and> (re_search_step (lower line) = Some ds
          \<and> (4300 < length ds
               \<or> (\<exists>n. max_steps = PInt n \<and> float_overflow (of_int (py_int ds) / of_int n))
               \<or> ((\<forall>n. max_steps \<noteq> PInt n) \<and> float_overflow (of_int (py_int ds))))
          \<longrightarrow> stored_progress (process_line jid request line ls w) jid = Some (progress job))"
proof (intro conjI impI)
  assume "contains ''step'' (lower line) \<and> contains ''loss'' (lower line)
          \<and> re_search_step (lower line) = Some ds \<and> length ds \<le> 4300
          \<and> num_of max_steps = Some N \<and> N \<noteq> 0
          \<and> (\<not> float_overflow (of_int (py_int ds))
               \<or> (\<exists>n. max_steps = PInt n \<and> \<not> float_overflow (of_int (py_int ds) / of_int n)))"
  then have "update_progress request line j
      = j\<lparr>progress := min 100 (100 * of_int (py_int ds) / N)\<rparr>" for j
    unfolding assms(2) by (intro update_progress_step) simp_all
  then show "stored_progress (process_line jid request line ls w) jid
                = Some (min 100 (100 * of_int (py_int ds) / N))"
    by (simp add: stored_progress_def process_line_get [OF assms(1)])
next
  assume a: "contains ''step'' (lower line) \<and> contains ''loss'' (lower line)
          \<and> re_search_step (lower line) = Some ds \<and> length ds \<le> 4300
          \<and> r_config request ''num_steps'' = None
          \<and> \<not> float_overflow (of_int (py_int ds) / 1000)"
  then have d: "dict_get (r_config request) ''num_steps'' (PInt 1000) = PInt 1000"
    by (simp add: dict_get_def)
  have "update_progress request line j
      = j\<lparr>progress := min 100 (100 * of_int (py_int ds) / 1000)\<rparr>" for j
    using a by (intro update_progress_step) (simp_all add: d)
  then show "stored_progress (process_line jid request line ls w) jid
                = Some (min 100 (100 * of_int (py_int ds) / 1000))"
    by (simp add: stored_progress_def process_line_get [OF assms(1)])
next
  assume a: "\<not> contains ''step'' (lower line) \<or> \<not> contains ''loss'' (lower line)
          \<or> re_search_step (lower line) = None
          \<or> num_of max_steps = None \<or> num_of max_steps = Some 0"
  have "update_progress request line j = j" for j
  proof (cases "re_search_step (lower line)")
    case None
    then show ?thesis by (simp add: update_progress_skip)
  next
    case (Some ds')
    show ?thesis
    proof (cases "\<not> contains ''step'' (lower line) \<or> \<not> contains ''loss'' (lower line)")
      case True
      then show ?thesis by (auto simp: update_progress_skip)
    next
      case False
      with a Some have "num_of max_steps = None \<or> num_of max_steps = Some 0"
        by auto
      with parse_progress_raises [OF Some, of request]
      have "\<exists>e. parse_progress request line = Inl e"
        unfolding assms(2) by blast
      then show ?thesis by (simp add: update_progress_skip)
    qed
  qed
  then show "stored_progress (process_line jid request line ls w) jid = Some (progress job)"
    by (simp add: stored_progress_def process_line_get [OF assms(1)])
next
  assume a: "re_search_step (lower line) = Some ds
          \<and> (4300 < length ds
               \<or> (\<exists>n. max_steps = PInt n \<and> float_overflow (of_int (py_int ds) / of_int n))
               \<or> ((\<forall>n. max_steps \<noteq> PInt n) \<and> float_overflow (of_int (py_int ds))))"
  then have "\<exists>e. parse_progress request line = Inl e"
    unfolding assms(2) by (intro parse_progress_raises [of line ds]) auto
  then have "update_progress request line j = j" for j
    by (simp add: update_progress_skip)
  then show "stored_progress (process_line jid request line ls w) jid = Some (progress job)"
    by (simp add: stored_progress_def process_line_get [OF assms(1)])
qed

theorem step_line_progress_witness:
  "redis_get (example_world ''running'' 20) (job_key ''job_1'') = Some (example_job ''running'' 20)
   \<and> contains ''step'' (lower ''step 500 loss 0.31'')
   \<and> contains ''loss'' (lower ''step 500 loss 0.31'')
   \<and> re_search_step (lower ''step 500 loss 0.31'') = Some ''500''
   \<and> length ''500'' \<le> 4300
   \<and> \<not> float_overflow (of_int (py_int ''500''))
   \<and> \<not> float_overflow (of_int (py_int ''500'') / 1000)
   \<and> dict_get (r_config (example_request [''num_steps'' \<mapsto> PInt 1000])) ''num_steps'' (PInt 1000)
       = PInt 1000
   \<and> stored_progress
        (process_line ''job_1'' (example_request [''num_steps'' \<mapsto> PInt 1000])
           ''step 500 loss 0.31'' [''step 500 loss 0.31''] (example_world ''running'' 20)) ''job_1''
       = Some 50
   \<and> r_config (example_request Map.empty) ''num_steps'' = None
   \<and> stored_progress
        (process_line ''job_1'' (example_request Map.empty)
           ''step 500 loss 0.31'' [''step 500 loss 0.31''] (example_world ''running'' 20)) ''job_1''
       = Some 50
   \<and> \<not> contains ''step'' (lower ''Epoch 1 done'')
   \<and> stored_progress
        (process_line ''job_1'' (example_request Map.empty)
           ''Epoch 1 done'' [''Epoch 1 done''] (example_world ''running'' 20)) ''job_1''
       = Some 20
   \<and> re_search_step (lower huge_step_line) = Some (CHR ''1'' # replicate 312 (CHR ''0''))
   \<and> float_overflow (of_int (py_int (CHR ''1'' # replicate 312 (CHR ''0''))) / of_int 1000)
   \<and> stored_progress
        (process_line ''job_1'' (example_request [''num_steps'' \<mapsto> PInt 1000])
           huge_step_line [huge_step_line] (example_world ''running'' 20)) ''job_1''
       = Some 20"
proof -
  let ?w = "example_world ''running'' 20"
  let ?r = "example_request [''num_steps'' \<mapsto> PInt 1000]"
  let ?ds = "CHR ''1'' # replicate 312 (CHR ''0'')"
  have g: "redis_get ?w (job_key ''job_1'') = Some (example_job ''running'' 20)"
    by (simp add: example_world_def redis_get_def job_key_def)
  have m: "PInt 1000 = dict_get (r_config ?r) ''num_steps'' (PInt 1000)"
    by (simp add: example_request_def dict_get_def)
  have m0: "PInt 1000 = dict_get (r_config (example_request Map.empty)) ''num_steps'' (PInt 1000)"
    by (simp add: example_request_def dict_get_def)
  have e: "r_config (example_request Map.empty) ''num_steps'' = None"
    by (simp add: example_request_def)
  have s: "\<not> float_overflow (of_int (py_int ''500''))"
    "\<not> float_overflow (of_int (py_int ''500'') / 1000)"
    using line_500 by (simp_all add: small_step_in_range)
  have h: "float_overflow (of_int (py_int ?ds) / of_int 1000)"
    using step_huge step_huge_overflow by simp
  from step_line_progress [OF g m, of "''step 500 loss 0.31''" "''500''" 1000
      "[''step 500 loss 0.31'']"] line_500 s
  have 1: "stored_progress (process_line ''job_1'' ?r ''step 500 loss 0.31''
      [''step 500 loss 0.31''] ?w) ''job_1'' = Some 50"
    by simp
  from step_line_progress [OF g m0, of "''step 500 loss 0.31''" "''500''" 1000
      "[''step 500 loss 0.31'']"] line_500 s e
  have 2: "stored_progress (process_line ''job_1'' (example_request Map.empty)
      ''step 500 loss 0.31'' [''step 500 loss 0.31''] ?w) ''job_1'' = Some 50"
    by simp
  from step_line_progress [OF g m0, of "''Epoch 1 done''" "[]" 1000 "[''Epoch 1 done'']"]
    line_epoch
  have 3: "stored_progress (process_line ''job_1'' (example_request Map.empty)
      ''Epoch 1 done'' [''Epoch 1 done''] ?w) ''job_1'' = Some 20"
    by (simp add: example_job_def)
  from step_line_progress [OF g m, of huge_step_line ?ds 1000 "[huge_step_line]"] line_huge h
  have 4: "stored_progress (process_line ''job_1'' ?r huge_step_line [huge_step_line] ?w)
      ''job_1'' = Some 20"
    by (simp add: example_job_def)
  from g line_500 line_epoch line_huge s h m [symmetric] e 1 2 3 4 show ?thesis
    by simp
qed

lemma monitor_lines_last:
  assumes "redis_get w (job_key jid) = Some job" and "[] \<notin> set lines" and "line \<noteq> []"
  shows "\<exists>job1. redis_get (snd (monitor_lines jid request lines [] w)) (job_key jid) = Some job1
        \<and> monitor_lines jid request (lines @ [line]) [] w
          = (map strip lines @ [strip line],
             process_line jid request line (map strip lines @ [strip line])
               (snd (monitor_lines jid request lines [] w)))"
  using assms monitor_lines_present [OF assms(1)]
  by (simp add: monitor_lines_append monitor_lines_fst)

text \<open>
  C1, as the code has it: after the update for a line in which a step number is found
  and from which the progress is computed (a nonzero number of steps, at most 4300
  digits, values inside the range of a float), the stored progress is the value computed
  from that line alone, whatever lines came before it and whatever progress they had
  stored; the monitor never compares the new value with the stored one.
\<close>

theorem progress_follows_latest_step_line:
  assumes "redis_get w (job_key jid) = Some job"
    and "[] \<notin> set lines" and "line \<noteq> []"
    and "contains ''step'' (lower line)" and "contains ''loss'' (lower line)"
    and "re_search_step (lower line) = Some ds" and "length ds \<le> 4300"
    and "num_of (dict_get (r_config request) ''num_steps'' (PInt 1000)) = Some N"
    and "N \<noteq> 0"
    and "\<not> float_overflow (of_int (py_int ds))
         \<or> (\<exists>n. dict_get (r_config request) ''num_steps'' (PInt 1000) = PInt n
                \<and> \<not> float_overflow (of_int (py_int ds) / of_int n))"
  shows "stored_progress (snd (monitor_lines jid request (lines @ [line]) [] w)) jid
       = Some (min 100 (100 * of_int (py_int ds) / N))"
proof -
  from monitor_lines_last [OF assms(1-3)] obtain job1 where
    j1: "redis_get (snd (monitor_lines jid request lines [] w)) (job_key jid) = Some job1"
    and step: "monitor_lines jid request (lines @ [line]) [] w
          = (map strip lines @ [strip line],
             process_line jid request line (map strip lines @ [strip line])
               (snd (monitor_lines jid request lines [] w)))"
    by blast
  show ?thesis
    by (simp add: step stored_progress_def process_line_get [OF j1]
          update_progress_step [OF assms(4-10)])
qed

theorem progress_follows_latest_step_line_witness:
  "redis_get (example_world ''running'' 0) (job_key ''job_1'') = Some (example_job ''running'' 0)
   \<and> [] \<notin> set [''step 500 loss 0.31''] \<and> ''step 200 loss 0.52'' \<noteq> []
   \<and> contains ''step'' (lower ''step 200 loss 0.52'')
   \<and> contains ''loss'' (lower ''step 200 loss 0.52'')
   \<and> re_search_step (lower ''step 200 loss 0.52'') = Some ''200''
   \<and> length ''200'' \<le> 4300
   \<and> num_of (dict_get (r_config (example_request Map.empty)) ''num_steps'' (PInt 1000))
       = Some 1000
   \<and> (1000::rat) \<noteq> 0
   \<and> \<not> float_overflow (of_int (py_int ''200''))
   \<and> stored_progress
        (snd (monitor_lines ''job_1'' (example_request Map.empty)
                ([''step 500 loss 0.31''] @ [''step 200 loss 0.52'']) []
                (example_world ''running'' 0))) ''job_1''
       = Some 20"
proof -
  have s: "\<not> float_overflow (of_int (py_int ''200''))"
    using line_200 by (simp add: small_step_in_range)
  from progress_follows_latest_step_line [of "example_world ''running'' 0" "''job_1''"
      "example_job ''running'' 0" "[''step 500 loss 0.31'']" "''step 200 loss 0.52''" "''200''"
      "example_request Map.empty" 1000]
    line_200 s
  show ?thesis
    by (simp add: example_world_def redis_get_def job_key_def example_request_def dict_get_def)
qed

text \<open>
  C1 as stated fails: with \<open>num_steps = 1000\<close> the line \<open>step 500 loss 0.31\<close> stores
  the progress 50 and the later line \<open>step 200 loss 0.52\<close> lowers it to 20.
\<close>

theorem progress_lowered_counterexample:
  "stored_progress
     (snd (monitor_lines ''job_1'' (example_request [''num_steps'' \<mapsto> PInt 1000])
             [''step 500 loss 0.31''] [] (example_world ''running'' 0))) ''job_1''
     = Some 50
   \<and> stored_progress
     (snd (monitor_lines ''job_1'' (example_request [''num_steps'' \<mapsto> PInt 1000])
             [''step 500 loss 0.31'', ''step 200 loss 0.52''] [] (example_world ''running'' 0)))
       ''job_1''
     = Some 20"
proof -
  let ?req = "example_request [''num_steps'' \<mapsto> PInt 1000]"
  let ?w = "example_world ''running'' 0"
  have n: "num_of (dict_get (r_config ?req) ''num_steps'' (PInt 1000)) = Some 1000"
    by (simp add: example_request_def dict_get_def)
  have g0: "redis_get ?w (job_key ''job_1'') = Some (example_job ''running'' 0)"
    by (simp add: example_world_def redis_get_def job_key_def)
  have s: "\<not> float_overflow (of_int (py_int ''500''))"
    "\<not> float_overflow (of_int (py_int ''200''))"
    using line_500 line_200 by (simp_all add: small_step_in_range)
  have u1: "update_progress ?req ''step 500 loss 0.31'' j = j\<lparr>progress := 50\<rparr>" for j
    using update_progress_step [of "''step 500 loss 0.31''" "''500''" ?req 1000 j]
      line_500 n s
    by simp
  have u2: "update_progress ?req ''step 200 loss 0.52'' j = j\<lparr>progress := 20\<rparr>" for j
    using update_progress_step [of "''step 200 loss 0.52''" "''200''" ?req 1000 j]
      line_200 n s
    by simp
  note g1 = process_line_get [OF g0, of ?req "''step 500 loss 0.31''"]
  note g2 = process_line_get [OF g1, of ?req "''step 200 loss 0.52''"]
  show ?thesis
    by (simp add: stored_progress_def g1 g2 u1 u2)
qed

section \<open>Cancelling and the terminal states\<close>

text \<open>
  C2, as the code has it: cancelling a stored job sets its state to \<open>cancelled\<close>
  whatever the state was, changing nothing else but \<open>updated_at\<close>; the update at the
  end of the process sets the state by the return code and the progress to 100 whatever
  the state was.
\<close>

theorem cancel_and_finish_overwrite:
  assumes "redis_get w (job_key jid) = Some job"
  shows "(\<exists>w'. cancel_job w jid = Inr w'
            \<and> redis_get w' (job_key jid)
                = Some (job\<lparr>status := ''cancelled'', updated_at := clock w\<rparr>))
       \<and> redis_get (finish jid rc w) (job_key jid)
           = Some (job\<lparr>status := (if rc = 0 then ''completed'' else ''failed''),
                        progress := 100, updated_at := clock w\<rparr>)"
  using assms by (simp add: cancel_job_def finish_get redis_get_set)

theorem cancel_and_finish_overwrite_witness:
  "redis_get (example_world ''failed'' 100) (job_key ''job_1'') = Some (example_job ''failed'' 100)
   \<and> (\<exists>w'. cancel_job (example_world ''failed'' 100) ''job_1'' = Inr w'
            \<and> redis_get w' (job_key ''job_1'')
                = Some ((example_job ''failed'' 100)\<lparr>status := ''cancelled'', updated_at := 2\<rparr>))
   \<and> redis_get (finish ''job_1'' 3 (example_world ''failed'' 100)) (job_key ''job_1'')
       = Some ((example_job ''failed'' 100)\<lparr>status := ''failed'', progress := 100, updated_at := 2\<rparr>)"
  using cancel_and_finish_overwrite [of "example_world ''failed'' 100" "''job_1''"
      "example_job ''failed'' 100" 3]
  by (simp add: example_world_def redis_get_def job_key_def)

text \<open>
  C2 as stated fails: cancelling a \<open>completed\<close> job stores it as \<open>cancelled\<close>, and
  the end of a process with return code 0 stores a \<open>cancelled\<close> job as \<open>completed\<close>.
\<close>

theorem terminal_state_overwritten_counterexample:
  "stored_status (example_world ''completed'' 100) ''job_1'' = Some ''completed''
   \<and> cancel_job (example_world ''completed'' 100) ''job_1''
     = Inr \<lparr>redis = [(''job:job_1'', (example_job ''cancelled'' 100)\<lparr>updated_at := 2\<rparr>)], clock = 3\<rparr>
   \<and> stored_status (example_world ''cancelled'' 50) ''job_1'' = Some ''cancelled''
   \<and> stored_status (finish ''job_1'' 0 (example_world ''cancelled'' 50)) ''job_1'' = Some ''completed''"
  by (simp add: stored_status_def cancel_job_def finish_def redis_get_def redis_set_def tick_def
        job_key_def example_world_def example_job_def)

section \<open>The owner of a job\<close>

lemma eq_str_PStr: "eq_str v u \<Longrightarrow> v = PStr u"
  by (cases v) simp_all

lemma in_set_map_filter:
  "y \<in> set (List.map_filter f xs) \<longleftrightarrow> (\<exists>x\<in>set xs. f x = Some y)"
  by (induction xs) (auto split: option.splits)

lemma list_jobs_filtered:
  assumes "j \<in> set (list_jobs w (Some u) limit)"
  shows "config j ''user_id'' = Some (PStr u)"
proof -
  from assms have "eq_str (dict_get (config j) ''user_id'' PNone) u"
    by (auto simp: list_jobs_def in_set_map_filter split: option.splits if_splits)
  then have "dict_get (config j) ''user_id'' PNone = PStr u"
    by (rule eq_str_PStr)
  then show ?thesis
    by (auto simp: dict_get_def split: option.splits)
qed

text \<open>
  C10: the job that a submission stores has the configuration of the request and
  nothing of its \<open>user_id\<close> (any other \<open>user_id\<close> gives the same store); a listing
  filtered by user \<open>u\<close> returns that job only if the configuration maps
  \<open>user_id\<close> to the string \<open>u\<close>, and never if the configuration has no such key.
\<close>

theorem user_id_not_stored:
  assumes "start_fine_tuning request uid w = (jid, w')"
  shows "\<exists>job. redis_get w' (job_key jid) = Some job
           \<and> config job = r_config request
           \<and> start_fine_tuning (request\<lparr>r_user_id := other\<rparr>) uid w = (jid, w')
           \<and> (\<forall>u limit. job \<in> set (list_jobs w' (Some u) limit)
                \<longrightarrow> r_config request ''user_id'' = Some (PStr u))
           \<and> (r_config request ''user_id'' = None
                \<longrightarrow> (\<forall>u limit. job \<notin> set (list_jobs w' (Some u) limit)))"
proof -
  let ?job = "\<lparr>job_id = ''job_'' @ uid, model = r_model request, dataset = r_dataset request,
                 status = ''pending'', progress = 0, hardware = r_hardware request,
                 precision = r_precision request, created_at = clock w,
                 updated_at = Suc (clock w), config = r_config request,
                 logs = [], metrics = Map.empty\<rparr>"
  from assms have jid: "jid = ''job_'' @ uid"
    and w': "w' = redis_set (tick (tick w)) (job_key (''job_'' @ uid)) ?job"
    by (auto simp: start_fine_tuning_def Let_def)
  have g: "redis_get w' (job_key jid) = Some ?job"
    by (simp add: w' jid redis_get_set)
  have "start_fine_tuning (request\<lparr>r_user_id := other\<rparr>) uid w
      = start_fine_tuning request uid w"
    by (simp add: start_fine_tuning_def)
  with assms have same: "start_fine_tuning (request\<lparr>r_user_id := other\<rparr>) uid w = (jid, w')"
    by simp
  have only: "r_config request ''user_id'' = Some (PStr u)"
    if "?job \<in> set (list_jobs w' (Some u) limit)" for u limit
    using list_jobs_filtered [OF that] by simp
  have never: "?job \<notin> set (list_jobs w' (Some u) limit)"
    if "r_config request ''user_id'' = None" for u limit
    using only [of u limit] that by auto
  from g same only never show ?thesis
    by auto
qed

theorem user_id_not_stored_witness:
  "start_fine_tuning (example_request Map.empty) ''0a1b2c3d'' \<lparr>redis = [], clock = 0\<rparr>
     = (''job_0a1b2c3d'',
        \<lparr>redis = [(''job:job_0a1b2c3d'',
            (example_job ''pending'' 0)\<lparr>job_id := ''job_0a1b2c3d'', updated_at := 1\<rparr>)], clock = 2\<rparr>)
   \<and> r_user_id (example_request Map.empty) = Some ''alice''
   \<and> r_config (example_request Map.empty) ''user_id'' = None
   \<and> (\<forall>u limit. (example_job ''pending'' 0)\<lparr>job_id := ''job_0a1b2c3d'', updated_at := 1\<rparr>
          \<notin> set (list_jobs
                  \<lparr>redis = [(''job:job_0a1b2c3d'',
                      (example_job ''pending'' 0)\<lparr>job_id := ''job_0a1b2c3d'', updated_at := 1\<rparr>)],
                   clock = 2\<rparr> (Some u) limit))"
proof -
  let ?w' = "\<lparr>redis = [(''job:job_0a1b2c3d'',
            (example_job ''pending'' 0)\<lparr>job_id := ''job_0a1b2c3d'', updated_at := 1\<rparr>)], clock = 2\<rparr>"
  have s: "start_fine_tuning (example_request Map.empty) ''0a1b2c3d'' \<lparr>redis = [], clock = 0\<rparr>
     = (''job_0a1b2c3d'', ?w')"
    by (simp add: start_fine_tuning_def example_request_def example_job_def redis_set_def
          tick_def job_key_def Let_def)
  from user_id_not_stored [OF s, of None]
  have "\<forall>u limit. (example_job ''pending'' 0)\<lparr>job_id := ''job_0a1b2c3d'', updated_at := 1\<rparr>
          \<notin> set (list_jobs ?w' (Some u) limit)"
    by (auto simp: redis_get_def job_key_def example_request_def)
  with s show ?thesis
    by (simp add: example_request_def)
qed

end
